theory Spec2Isabelle
  imports Complex_Main
begin

section \<open>Values shared by the rules\<close>

text \<open>
  A JavaScript \<open>number\<close> is modelled as a real: the rules only compare numbers with
  \<open>>\<close> and \<open><=\<close>. A string is a list of code units below 256. A property that may
  be \<open>undefined\<close> is an \<open>option\<close>, and \<open>a ?? b\<close> is \<open>nullish a b\<close>.
\<close>

type_synonym number = real

datatype Severity = Info | Warning | Error

text \<open>A template literal is kept as its fragments: text, an interpolated number, and
  a number printed with \<open>toFixed(1)\<close>.\<close>

datatype Fragment = Txt string | Num number | Fixed1 number

record Diagram =
  content :: string
  diagramType :: string
  filePath :: string
  startLine :: nat

record Metrics =
  nodeCount :: number
  edgeCount :: number
  graphDensity :: number
  maxBranchWidth :: number
  averageDegree :: number

text \<open>\<open>RuleConfig\<close>: the fields the rules read. \<open>cfgSeverity\<close> is the source's
  \<open>config.severity\<close>.\<close>

record RuleConfig =
  enabled :: bool
  cfgSeverity :: "Severity option"
  threshold :: "number option"
  densityThreshold :: "number option"

text \<open>\<open>Issue\<close>: \<open>issueFilePath\<close> is the source's \<open>filePath\<close> of an issue.\<close>

record Issue =
  rule :: string
  severity :: Severity
  message :: "Fragment list"
  issueFilePath :: string
  line :: nat
  suggestion :: "string option"
  citation :: "string option"

definition nullish :: "'a option \<Rightarrow> 'a \<Rightarrow> 'a" where
  "nullish a b = (case a of Some v \<Rightarrow> v | None \<Rightarrow> b)"

definition nullishOpt :: "'a option \<Rightarrow> 'a option \<Rightarrow> 'a option" where
  "nullishOpt a b = (case a of Some v \<Rightarrow> Some v | None \<Rightarrow> b)"

section \<open>Strings and regular expressions of the runtime\<close>

text \<open>
  The character classes of the regular expressions, on code units below 256:
  \<open>\s\<close> (also what \<open>trim\<close> strips), \<open>\w\<close>, \<open>\d\<close>, \<open>[A-Z]\<close>, and \<open>.\<close>, which
  matches everything but a line terminator.
\<close>

definition isSpace :: "char \<Rightarrow> bool" where
  "isSpace c \<longleftrightarrow> c \<in> set [CHR 0x09, CHR 0x0A, CHR 0x0B, CHR 0x0C, CHR 0x0D, CHR 0x20, CHR 0xA0]"

definition isUpper :: "char \<Rightarrow> bool" where
  "isUpper c \<longleftrightarrow> c \<in> set ''ABCDEFGHIJKLMNOPQRSTUVWXYZ''"

definition isLower :: "char \<Rightarrow> bool" where
  "isLower c \<longleftrightarrow> c \<in> set ''abcdefghijklmnopqrstuvwxyz''"

definition isDigit :: "char \<Rightarrow> bool" where
  "isDigit c \<longleftrightarrow> c \<in> set ''0123456789''"

definition isWord :: "char \<Rightarrow> bool" where
  "isWord c \<longleftrightarrow> isUpper c \<or> isLower c \<or> isDigit c \<or> c = CHR ''_''"

definition isDot :: "char \<Rightarrow> bool" where
  "isDot c \<longleftrightarrow> c \<noteq> CHR 0x0A \<and> c \<noteq> CHR 0x0D"

definition trim :: "string \<Rightarrow> string" where
  "trim s = rev (dropWhile isSpace (rev (dropWhile isSpace s)))"

definition startsWith :: "string \<Rightarrow> string \<Rightarrow> bool" where
  "startsWith s p \<longleftrightarrow> take (length p) s = p"

definition includesChar :: "string \<Rightarrow> char \<Rightarrow> bool" where
  "includesChar s c \<longleftrightarrow> c \<in> set s"

text \<open>\<open>s.split('\n')\<close>: the pieces between newlines; the empty string gives one empty
  piece.\<close>

fun split_newline :: "string \<Rightarrow> string list" where
  "split_newline [] = [[]]"
| "split_newline (c # cs) =
     (if c = CHR 0x0A then [] # split_newline cs
      else (case split_newline cs of
              [] \<Rightarrow> [[c]]
            | l # ls \<Rightarrow> (c # l) # ls))"

text \<open>\<open>xs.join(sep)\<close>.\<close>

fun join :: "string \<Rightarrow> string list \<Rightarrow> string" where
  "join sep [] = []"
| "join sep [x] = x"
| "join sep (x # y # ys) = x @ sep @ join sep (y # ys)"

text \<open>\<open>toLowerCase\<close> on code units below 256: the ASCII capitals and the capitals of
  Latin-1 (\<open>0xC0\<close> to \<open>0xDE\<close> without \<open>0xD7\<close>) move up by 32.\<close>

definition lowerChar :: "char \<Rightarrow> char" where
  "lowerChar c =
     (let n = (of_char c :: nat)
      in if (65 \<le> n \<and> n \<le> 90) \<or> (192 \<le> n \<and> n \<le> 222 \<and> n \<noteq> 215)
         then char_of (n + 32) else c)"

definition toLowerCase :: "string \<Rightarrow> string" where
  "toLowerCase s = map lowerChar s"

text \<open>
  A regular expression is a backtracking matcher in continuation-passing style, as the
  runtime runs it. The state of a match is the code unit before the current position
  (\<open>None\<close> at the start of the input), the input that is left, and the capture groups
  so far. A matcher takes the continuation for what follows it; sequencing two matchers
  is function composition. Every alternative is tried in the order of the runtime:
  a greedy quantifier first takes as much as it can and gives back one code unit at a
  time while the continuation fails.
\<close>

type_synonym mstate = "char option \<times> string \<times> (nat \<rightharpoonup> string)"

type_synonym matcher = "(mstate \<Rightarrow> mstate option) \<Rightarrow> mstate \<Rightarrow> mstate option"

text \<open>One code unit of a class.\<close>

fun cls :: "(char \<Rightarrow> bool) \<Rightarrow> matcher" where
  "cls P k (p, [], g) = None"
| "cls P k (p, c # cs, g) = (if P c then k (Some c, cs, g) else None)"

text \<open>A literal code unit, and a literal string.\<close>

definition chr :: "char \<Rightarrow> matcher" where
  "chr c = cls (\<lambda>x. x = c)"

fun str :: "string \<Rightarrow> matcher" where
  "str [] k st = k st"
| "str (c # cs) k st = chr c (str cs k) st"

text \<open>\<open>[class]*\<close>, greedy.\<close>

fun many :: "(char \<Rightarrow> bool) \<Rightarrow> matcher" where
  "many P k (p, [], g) = k (p, [], g)"
| "many P k (p, c # cs, g) =
     (if P c then
        (case many P k (Some c, cs, g) of
           Some r \<Rightarrow> Some r
         | None \<Rightarrow> k (p, c # cs, g))
      else k (p, c # cs, g))"

text \<open>\<open>[class]+\<close>, greedy.\<close>

definition many1 :: "(char \<Rightarrow> bool) \<Rightarrow> matcher" where
  "many1 P = cls P \<circ> many P"

text \<open>\<open>r?\<close>, greedy: with \<open>r\<close> first, then without.\<close>

definition opt :: "matcher \<Rightarrow> matcher" where
  "opt r k st = (case r k st of Some x \<Rightarrow> Some x | None \<Rightarrow> k st)"

text \<open>Capture group \<open>n\<close>: what \<open>r\<close> consumed.\<close>

fun grp :: "nat \<Rightarrow> matcher \<Rightarrow> matcher" where
  "grp n r k (p, s, g) =
     r (\<lambda>(p', s', g'). k (p', s', g'(n \<mapsto> take (length s - length s') s))) (p, s, g)"

text \<open>\<open>^\<close> and \<open>$\<close> without the multiline flag, and \<open>\b\<close>.\<close>

fun bol :: matcher where
  "bol k (p, s, g) = (if p = None then k (p, s, g) else None)"

fun eol :: matcher where
  "eol k (p, s, g) = (if s = [] then k (p, s, g) else None)"

definition wordBefore :: "char option \<Rightarrow> bool" where
  "wordBefore p = (case p of None \<Rightarrow> False | Some c \<Rightarrow> isWord c)"

definition wordAfter :: "string \<Rightarrow> bool" where
  "wordAfter s = (case s of [] \<Rightarrow> False | c # _ \<Rightarrow> isWord c)"

fun wordb :: matcher where
  "wordb k (p, s, g) = (if wordBefore p \<noteq> wordAfter s then k (p, s, g) else None)"

text \<open>\<open>re.exec(s)\<close> of an expression without the global flag: the match at the leftmost
  position that has one, positions being tried up to the end of the input. The result
  is the capture groups.\<close>

fun searchFrom :: "matcher \<Rightarrow> char option \<Rightarrow> string \<Rightarrow> mstate option" where
  "searchFrom r p [] = r Some (p, [], Map.empty)"
| "searchFrom r p (c # cs) =
     (case r Some (p, c # cs, Map.empty) of
        Some st \<Rightarrow> Some st
      | None \<Rightarrow> searchFrom r (Some c) cs)"

definition exec :: "matcher \<Rightarrow> string \<Rightarrow> (nat \<rightharpoonup> string) option" where
  "exec r s = map_option (\<lambda>(p, s', g). g) (searchFrom r None s)"

text \<open>A group that takes part in every match of its expression is read with
  \<open>group\<close>; a group of an optional part is read as an \<open>option\<close>.\<close>

definition group :: "(nat \<rightharpoonup> string) \<Rightarrow> nat \<Rightarrow> string" where
  "group g n = (case g n of Some s \<Rightarrow> s | None \<Rightarrow> [])"

text \<open>
  The matches of an expression with the global flag, from left to right: after a match
  of \<open>n\<close> code units at a position the search goes on \<open>n\<close> positions further, and one
  position further after an empty match. \<open>skip\<close> counts the positions that are still
  inside the last match. Each match is the matched text and its groups.
\<close>

fun globalFrom :: "matcher \<Rightarrow> nat \<Rightarrow> char option \<Rightarrow> string \<Rightarrow> (string \<times> (nat \<rightharpoonup> string)) list" where
  "globalFrom r skip p [] =
     (if skip = 0 then
        (case r Some (p, [], Map.empty) of
           None \<Rightarrow> []
         | Some (p', s', g) \<Rightarrow> [([], g)])
      else [])"
| "globalFrom r skip p (c # cs) =
     (if skip > 0 then globalFrom r (skip - 1) (Some c) cs
      else
        (case r Some (p, c # cs, Map.empty) of
           None \<Rightarrow> globalFrom r 0 (Some c) cs
         | Some (p', s', g) \<Rightarrow>
             (take (length (c # cs) - length s') (c # cs), g)
               # globalFrom r (length (c # cs) - length s' - 1) (Some c) cs))"

definition matchAll :: "matcher \<Rightarrow> string \<Rightarrow> (string \<times> (nat \<rightharpoonup> string)) list" where
  "matchAll r s = globalFrom r 0 None s"

section \<open>graph/class-parser.ts\<close>

record ClassNode =
  nodeName :: string
  attributes :: "string list"
  methods :: "string list"

datatype RelationshipType = Inheritance | Composition | Aggregation | Association | Dependency

text \<open>\<open>ClassRelationship\<close>: \<open>relFrom\<close>, \<open>relTo\<close>, \<open>relType\<close> and \<open>relLabel\<close> are the
  source's \<open>from\<close>, \<open>to\<close>, \<open>type\<close> and \<open>label\<close>; the multiplicity object is the pair of
  its \<open>from\<close> and \<open>to\<close>.\<close>

record ClassRelationship =
  relFrom :: string
  relTo :: string
  relType :: RelationshipType
  relLabel :: "string option"
  multiplicity :: "(string option \<times> string option) option"

text \<open>\<open>Edge\<close> and \<open>GraphRepresentation\<close> of \<open>graph/types\<close>. A \<open>Map\<close> is the list of its
  entries in insertion order, with no key twice.\<close>

record Edge =
  edgeFrom :: string
  edgeTo :: string
  edgeLabel :: "string option"

record GraphRepresentation =
  nodes :: "string list"
  edges :: "Edge list"
  adjacencyList :: "(string \<times> string list) list"
  reverseAdjacencyList :: "(string \<times> string list) list"

record ClassDiagramParse =
  classes :: "(string \<times> ClassNode) list"
  relationships :: "ClassRelationship list"
  graph :: GraphRepresentation

definition mapHas :: "('k \<times> 'v) list \<Rightarrow> 'k \<Rightarrow> bool" where
  "mapHas m k \<longleftrightarrow> k \<in> set (map fst m)"

text \<open>\<open>/^class\s+(\w+)\s*(\{?)/\<close>\<close>

definition classPattern :: matcher where
  "classPattern =
     bol \<circ> str ''class'' \<circ> many1 isSpace \<circ> grp 1 (many1 isWord) \<circ> many isSpace
       \<circ> grp 2 (opt (chr CHR ''{''))"

text \<open>\<open>/^(\w+)\s*:\s*(.+)/\<close>\<close>

definition memberPattern :: matcher where
  "memberPattern =
     bol \<circ> grp 1 (many1 isWord) \<circ> many isSpace \<circ> chr CHR '':'' \<circ> many isSpace
       \<circ> grp 2 (many1 isDot)"

text \<open>\<open>/^([+\-#~])?\s*(.+)/\<close>\<close>

definition blockMemberPattern :: matcher where
  "blockMemberPattern =
     bol \<circ> opt (grp 1 (cls (\<lambda>c. c \<in> set ''+-#~''))) \<circ> many isSpace \<circ> grp 2 (many1 isDot)"

text \<open>\<open>if (!classes.has(className)) classes.set(className, {name, attributes: [],
  methods: []})\<close>\<close>

definition ensureClass :: "(string \<times> ClassNode) list \<Rightarrow> string \<Rightarrow> (string \<times> ClassNode) list" where
  "ensureClass cs n =
     (if mapHas cs n then cs
      else cs @ [(n, \<lparr> nodeName = n, attributes = [], methods = [] \<rparr>)])"

text \<open>The classification of a member: \<open>if (member.includes('(')) classNode.methods.push(member)
  else classNode.attributes.push(member)\<close>.\<close>

definition addMember :: "ClassNode \<Rightarrow> string \<Rightarrow> ClassNode" where
  "addMember classNode member =
     (if includesChar member CHR ''('' then classNode \<lparr> methods := methods classNode @ [member] \<rparr>
      else classNode \<lparr> attributes := attributes classNode @ [member] \<rparr>)"

text \<open>\<open>const classNode = classes.get(n)!\<close> followed by the push: \<open>None\<close> stands for the
  TypeError of reading a property of \<open>undefined\<close> when the class is not in the map.\<close>

definition pushMember ::
  "(string \<times> ClassNode) list \<Rightarrow> string \<Rightarrow> string \<Rightarrow> (string \<times> ClassNode) list option" where
  "pushMember cs n member =
     (if mapHas cs n then
        Some (map (\<lambda>(k, classNode). if k = n then (k, addMember classNode member)
                                     else (k, classNode)) cs)
      else None)"

text \<open>One round of the loop of \<open>extractClasses\<close>, on the state \<open>(classes, currentClass,
  inClassBlock)\<close>.\<close>

fun extractClasses_step ::
  "(string \<times> ClassNode) list \<times> string option \<times> bool \<Rightarrow> string
     \<Rightarrow> ((string \<times> ClassNode) list \<times> string option \<times> bool) option" where
  "extractClasses_step (cs, currentClass, inClassBlock) aLine =
     (let trimmed = trim aLine in
      if startsWith trimmed ''%%'' then Some (cs, currentClass, inClassBlock)
      else
        (case exec classPattern trimmed of
           Some classMatch \<Rightarrow>
             (let className = group classMatch 1;
                  hasOpenBrace = (group classMatch 2 = ''{'');
                  cs' = ensureClass cs className
              in if hasOpenBrace then Some (cs', Some className, True)
                 else Some (cs', currentClass, inClassBlock))
         | None \<Rightarrow>
             (case exec memberPattern trimmed of
                Some memberMatch \<Rightarrow>
                  (let className = group memberMatch 1;
                       member = trim (group memberMatch 2)
                   in map_option (\<lambda>cs'. (cs', currentClass, inClassBlock))
                        (pushMember (ensureClass cs className) className member))
              | None \<Rightarrow>
                  (if inClassBlock \<and> currentClass \<noteq> None \<and> currentClass \<noteq> Some [] then
                     (if trimmed = ''}'' then Some (cs, None, False)
                      else
                        (case exec blockMemberPattern trimmed of
                           Some blockMemberMatch \<Rightarrow>
                             (if trimmed \<noteq> [] then
                                map_option (\<lambda>cs'. (cs', currentClass, inClassBlock))
                                  (pushMember cs (case currentClass of Some c \<Rightarrow> c | None \<Rightarrow> [])
                                     (trim (group blockMemberMatch 2)))
                              else Some (cs, currentClass, inClassBlock))
                         | None \<Rightarrow> Some (cs, currentClass, inClassBlock)))
                   else Some (cs, currentClass, inClassBlock)))))"

fun extractClasses_loop ::
  "(string \<times> ClassNode) list \<times> string option \<times> bool \<Rightarrow> string list
     \<Rightarrow> ((string \<times> ClassNode) list \<times> string option \<times> bool) option" where
  "extractClasses_loop st [] = Some st"
| "extractClasses_loop st (aLine # lns) =
     (case extractClasses_step st aLine of
        None \<Rightarrow> None
      | Some st' \<Rightarrow> extractClasses_loop st' lns)"

definition extractClasses :: "string \<Rightarrow> (string \<times> ClassNode) list option" where
  "extractClasses text =
     map_option fst (extractClasses_loop ([], None, False) (split_newline text))"

text \<open>The optional label \<open>(?:\s*:\s*(.+))?\<close> that ends each relationship expression,
  with the number of its group.\<close>

definition labelPart :: "nat \<Rightarrow> matcher" where
  "labelPart n = opt (many isSpace \<circ> chr CHR '':'' \<circ> many isSpace \<circ> grp n (many1 isDot))"

text \<open>\<open>/(\w+)\s*<\|--\s*(\w+)(?:\s*:\s*(.+))?/\<close>, and the same with \<open>\*--\<close>, \<open>o--\<close> and
  \<open>\.\.>\<close>.\<close>

definition operatorPattern :: "string \<Rightarrow> matcher" where
  "operatorPattern operator =
     grp 1 (many1 isWord) \<circ> many isSpace \<circ> str operator \<circ> many isSpace
       \<circ> grp 2 (many1 isWord) \<circ> labelPart 3"

definition inheritancePattern :: matcher where
  "inheritancePattern = operatorPattern ''<|--''"

definition compositionPattern :: matcher where
  "compositionPattern = operatorPattern ''*--''"

definition aggregationPattern :: matcher where
  "aggregationPattern = operatorPattern ''o--''"

definition dependencyPattern :: matcher where
  "dependencyPattern = operatorPattern ''..>''"

text \<open>\<open>/(\w+)\s*(?:"([^"]+)")?\s*-->\s*(?:"([^"]+)")?\s*(\w+)(?:\s*:\s*(.+))?/\<close>\<close>

definition quoted :: "nat \<Rightarrow> matcher" where
  "quoted n = opt (chr CHR 0x22 \<circ> grp n (many1 (\<lambda>c. c \<noteq> CHR 0x22)) \<circ> chr CHR 0x22)"

definition associationPattern :: matcher where
  "associationPattern =
     grp 1 (many1 isWord) \<circ> many isSpace \<circ> quoted 2 \<circ> many isSpace \<circ> str ''-->''
       \<circ> many isSpace \<circ> quoted 3 \<circ> many isSpace \<circ> grp 4 (many1 isWord) \<circ> labelPart 5"

text \<open>One round of the loop of \<open>extractRelationships\<close>.\<close>

definition extractRelationships_step :: "ClassRelationship list \<Rightarrow> string \<Rightarrow> ClassRelationship list" where
  "extractRelationships_step rels aLine =
     (let trimmed = trim aLine in
      if startsWith trimmed ''%%'' \<or> startsWith trimmed ''class '' then rels
      else
        (case exec inheritancePattern trimmed of
           Some m \<Rightarrow>
             rels @ [\<lparr> relFrom = group m 2, relTo = group m 1, relType = Inheritance,
                      relLabel = map_option trim (m 3), multiplicity = None \<rparr>]
         | None \<Rightarrow>
        (case exec compositionPattern trimmed of
           Some m \<Rightarrow>
             rels @ [\<lparr> relFrom = group m 1, relTo = group m 2, relType = Composition,
                      relLabel = map_option trim (m 3), multiplicity = None \<rparr>]
         | None \<Rightarrow>
        (case exec aggregationPattern trimmed of
           Some m \<Rightarrow>
             rels @ [\<lparr> relFrom = group m 1, relTo = group m 2, relType = Aggregation,
                      relLabel = map_option trim (m 3), multiplicity = None \<rparr>]
         | None \<Rightarrow>
        (case exec dependencyPattern trimmed of
           Some m \<Rightarrow>
             rels @ [\<lparr> relFrom = group m 1, relTo = group m 2, relType = Dependency,
                      relLabel = map_option trim (m 3), multiplicity = None \<rparr>]
         | None \<Rightarrow>
        (case exec associationPattern trimmed of
           Some m \<Rightarrow>
             rels @ [\<lparr> relFrom = group m 1, relTo = group m 4, relType = Association,
                      relLabel = map_option trim (m 5), multiplicity = Some (m 2, m 3) \<rparr>]
         | None \<Rightarrow> rels))))))"

definition extractRelationships :: "string \<Rightarrow> ClassRelationship list" where
  "extractRelationships text = foldl extractRelationships_step [] (split_newline text)"

text \<open>\<open>if (!m.has(k)) m.set(k, []); m.get(k)!.push(v)\<close>\<close>

definition pushTo :: "(string \<times> string list) list \<Rightarrow> string \<Rightarrow> string \<Rightarrow> (string \<times> string list) list" where
  "pushTo m k v =
     (let m' = (if mapHas m k then m else m @ [(k, [])])
      in map (\<lambda>(k', vs). if k' = k then (k', vs @ [v]) else (k', vs)) m')"

definition buildGraph_step ::
  "(string \<times> string list) list \<times> (string \<times> string list) list \<Rightarrow> Edge
     \<Rightarrow> (string \<times> string list) list \<times> (string \<times> string list) list" where
  "buildGraph_step acc edge =
     (pushTo (fst acc) (edgeFrom edge) (edgeTo edge),
      pushTo (snd acc) (edgeTo edge) (edgeFrom edge))"

definition buildGraphFromRelationships ::
  "(string \<times> ClassNode) list \<Rightarrow> ClassRelationship list \<Rightarrow> GraphRepresentation" where
  "buildGraphFromRelationships cs rels =
     (let ns = map fst cs;
          es = map (\<lambda>rel. \<lparr> edgeFrom = relFrom rel, edgeTo = relTo rel,
                             edgeLabel = relLabel rel \<rparr>) rels;
          maps = foldl buildGraph_step ([], []) es
      in \<lparr> nodes = ns, edges = es, adjacencyList = fst maps,
           reverseAdjacencyList = snd maps \<rparr>)"

text \<open>\<open>parseClassDiagram\<close>; \<open>None\<close> when \<open>extractClasses\<close> throws.\<close>

definition parseClassDiagram :: "string \<Rightarrow> ClassDiagramParse option" where
  "parseClassDiagram text =
     (case extractClasses text of
        None \<Rightarrow> None
      | Some cs \<Rightarrow>
          (let rels = extractRelationships text
           in Some \<lparr> classes = cs, relationships = rels,
                     graph = buildGraphFromRelationships cs rels \<rparr>))"

text \<open>The graph of the specification's data model: every endpoint of an edge is a node
  and a key of both adjacency maps.\<close>

definition canonicalGraph :: "GraphRepresentation \<Rightarrow> bool" where
  "canonicalGraph gr \<longleftrightarrow>
     list_all (\<lambda>e. list_all (\<lambda>v. v \<in> set (nodes gr) \<and> mapHas (adjacencyList gr) v
                                   \<and> mapHas (reverseAdjacencyList gr) v)
                     [edgeFrom e, edgeTo e])
       (edges gr)"

section \<open>rules/max-edges.ts\<close>

definition maxEdgesRule_name :: string where
  "maxEdgesRule_name = ''max-edges''"

definition maxEdgesRule_defaultSeverity :: Severity where
  "maxEdgesRule_defaultSeverity = Error"

definition maxEdgesRule_defaultThreshold :: "number option" where
  "maxEdgesRule_defaultThreshold = Some 100"

definition maxEdgesRule_check :: "Diagram \<Rightarrow> Metrics \<Rightarrow> RuleConfig \<Rightarrow> Issue option" where
  "maxEdgesRule_check diagram metrics config =
    (let thresh = nullish (nullishOpt (threshold config) maxEdgesRule_defaultThreshold) 100;
         sev = nullish (cfgSeverity config) maxEdgesRule_defaultSeverity
     in if edgeCount metrics > thresh then
          Some \<lparr> rule = maxEdgesRule_name,
                 severity = sev,
                 message = [Txt ''Too many connections ('', Num (edgeCount metrics),
                            Txt '' > '', Num thresh, Txt '')''],
                 issueFilePath = filePath diagram,
                 line = startLine diagram,
                 suggestion = Some (''Split into multiple diagrams or use subgraphs to reduce complexity. '' @
                   ''Consider breaking down into logical components with separate diagrams.''),
                 citation = Some ''Mermaid Official Docs: https://docs.mermaidchart.com/blog/posts/flow-charts-are-on2-complex-so-dont-go-over-100-connections'' \<rparr>
        else None)"

section \<open>rules/cognitive-load.ts\<close>

definition maxNodesHighDensityRule_name :: string where
  "maxNodesHighDensityRule_name = ''max-nodes-high-density''"

definition maxNodesHighDensityRule_defaultSeverity :: Severity where
  "maxNodesHighDensityRule_defaultSeverity = Warning"

definition maxNodesHighDensityRule_defaultThreshold :: "number option" where
  "maxNodesHighDensityRule_defaultThreshold = Some 50"

definition maxNodesHighDensityRule_check :: "Diagram \<Rightarrow> Metrics \<Rightarrow> RuleConfig \<Rightarrow> Issue option" where
  "maxNodesHighDensityRule_check diagram metrics config =
    (let thresh = nullish (nullishOpt (threshold config) maxNodesHighDensityRule_defaultThreshold) 50;
         densThresh = nullish (densityThreshold config) (3 / 10);
         sev = nullish (cfgSeverity config) maxNodesHighDensityRule_defaultSeverity
     in if nodeCount metrics > thresh \<and> graphDensity metrics > densThresh then
          Some \<lparr> rule = maxNodesHighDensityRule_name,
                 severity = sev,
                 message = [Txt ''High cognitive load: '', Num (nodeCount metrics),
                            Txt '' nodes with '', Fixed1 (graphDensity metrics * 100),
                            Txt ''% density''],
                 issueFilePath = filePath diagram,
                 line = startLine diagram,
                 suggestion = Some (''High-density diagrams with many nodes are difficult to comprehend. '' @
                   ''Consider splitting into multiple smaller diagrams or reducing connections between nodes.''),
                 citation = Some ''Research: arXiv:2008.07944 - Cognitive Load in Diagram Comprehension'' \<rparr>
        else None)"

definition maxNodesLowDensityRule_name :: string where
  "maxNodesLowDensityRule_name = ''max-nodes-low-density''"

definition maxNodesLowDensityRule_defaultSeverity :: Severity where
  "maxNodesLowDensityRule_defaultSeverity = Warning"

definition maxNodesLowDensityRule_defaultThreshold :: "number option" where
  "maxNodesLowDensityRule_defaultThreshold = Some 100"

definition maxNodesLowDensityRule_check :: "Diagram \<Rightarrow> Metrics \<Rightarrow> RuleConfig \<Rightarrow> Issue option" where
  "maxNodesLowDensityRule_check diagram metrics config =
    (let thresh = nullish (nullishOpt (threshold config) maxNodesLowDensityRule_defaultThreshold) 100;
         densThresh = (3 / 10 :: number);
         sev = nullish (cfgSeverity config) maxNodesLowDensityRule_defaultSeverity
     in if nodeCount metrics > thresh \<and> graphDensity metrics \<le> densThresh then
          Some \<lparr> rule = maxNodesLowDensityRule_name,
                 severity = sev,
                 message = [Txt ''Too many nodes ('', Num (nodeCount metrics), Txt '' > '',
                            Num thresh, Txt '') even with low density''],
                 issueFilePath = filePath diagram,
                 line = startLine diagram,
                 suggestion = Some (''Even sparse diagrams become hard to navigate with too many nodes. '' @
                   ''Consider organizing into hierarchical diagrams or multiple views.''),
                 citation = Some ''Research: arXiv:2008.07944 - Cognitive Load in Diagram Comprehension'' \<rparr>
        else None)"

section \<open>rules/cyclomatic-complexity.ts\<close>

text \<open>\<open>/\b([A-Z][A-Z0-9]*)\s*\{[^}]*\}/g\<close>\<close>

definition decisionPattern :: matcher where
  "decisionPattern =
     wordb \<circ> grp 1 (cls isUpper \<circ> many (\<lambda>c. isUpper c \<or> isDigit c)) \<circ> many isSpace
       \<circ> chr CHR ''{'' \<circ> many (\<lambda>c. c \<noteq> CHR ''}'') \<circ> chr CHR ''}''"

text \<open>\<open>content.match(decisionPattern)\<close> is \<open>null\<close> when nothing matches, and the count is
  0 then.\<close>

definition countDecisionNodes :: "string \<Rightarrow> nat" where
  "countDecisionNodes text =
     (let matches = matchAll decisionPattern text
      in if matches \<noteq> [] then length matches else 0)"

definition calculateCyclomaticComplexity :: "nat \<Rightarrow> nat" where
  "calculateCyclomaticComplexity decisionNodeCount = decisionNodeCount + 1"

definition cyclomaticComplexityRule_name :: string where
  "cyclomaticComplexityRule_name = ''cyclomatic-complexity''"

definition cyclomaticComplexityRule_defaultSeverity :: Severity where
  "cyclomaticComplexityRule_defaultSeverity = Warning"

definition cyclomaticComplexityRule_defaultThreshold :: "number option" where
  "cyclomaticComplexityRule_defaultThreshold = Some 10"

definition cyclomaticComplexityRule_check :: "Diagram \<Rightarrow> Metrics \<Rightarrow> RuleConfig \<Rightarrow> Issue option" where
  "cyclomaticComplexityRule_check diagram metrics config =
    (let thresh = nullish (nullishOpt (threshold config) cyclomaticComplexityRule_defaultThreshold) 10;
         sev = nullish (cfgSeverity config) cyclomaticComplexityRule_defaultSeverity;
         decisionCount = countDecisionNodes (content diagram);
         complexity = calculateCyclomaticComplexity decisionCount
     in if real complexity > thresh then
          Some \<lparr> rule = cyclomaticComplexityRule_name,
                 severity = sev,
                 message = [Txt ''High cyclomatic complexity ('', Num (real complexity),
                            Txt '' > '', Num thresh, Txt '') with '', Num (real decisionCount),
                            Txt '' decision nodes''],
                 issueFilePath = filePath diagram,
                 line = startLine diagram,
                 suggestion = Some (''High decision complexity makes diagrams hard to follow. '' @
                   ''Consider extracting decision logic into separate sub-diagrams or simplifying the flow.''),
                 citation = Some ''McCabe's Cyclomatic Complexity - Software Engineering Standards (IEEE)'' \<rparr>
        else None)"

subsection \<open>Reserved words\<close>

definition RESERVED_WORDS :: "string list" where
  "RESERVED_WORDS = [''end'', ''click'', ''call'', ''style'', ''class'', ''classDef'', ''direction'']"

definition structuralKeywords :: "string list" where
  "structuralKeywords =
     [''graph'', ''flowchart'', ''subgraph'', ''LR'', ''TD'', ''TB'', ''RL'', ''BT'', ''LD'', ''RD'']"

text \<open>\<open>/\b([a-zA-Z_][a-zA-Z0-9_]*)\b/g\<close>\<close>

definition nodePattern :: matcher where
  "nodePattern =
     wordb \<circ> grp 1 (cls (\<lambda>c. isLower c \<or> isUpper c \<or> c = CHR ''_'')
                     \<circ> many (\<lambda>c. isLower c \<or> isUpper c \<or> isDigit c \<or> c = CHR ''_''))
       \<circ> wordb"

text \<open>The lines that \<open>extractNodeIds\<close> skips: directives, and declarations of a graph
  or a subgraph.\<close>

definition directiveLine :: "string \<Rightarrow> bool" where
  "directiveLine trimmed \<longleftrightarrow>
     startsWith trimmed ''style '' \<or> startsWith trimmed ''class '' \<or>
     startsWith trimmed ''classDef '' \<or> startsWith trimmed ''click '' \<or>
     startsWith trimmed ''direction '' \<or> trimmed = ''end''"

definition declarationLine :: "string \<Rightarrow> bool" where
  "declarationLine trimmed \<longleftrightarrow>
     startsWith trimmed ''graph '' \<or> startsWith trimmed ''flowchart '' \<or>
     startsWith trimmed ''subgraph ''"

text \<open>A \<open>Set\<close> is the list of its elements in insertion order; \<open>setAdd\<close> is its \<open>add\<close>.\<close>

definition setAdd :: "string list \<Rightarrow> string \<Rightarrow> string list" where
  "setAdd xs x = (if x \<in> set xs then xs else xs @ [x])"

text \<open>The inner loop of \<open>extractNodeIds\<close>, over the matches of \<open>nodePattern\<close> in one
  line, and the outer loop over the lines. Every match of \<open>nodePattern\<close> has at least
  one code unit, so the loop over \<open>exec\<close> visits the matches that \<open>matchAll\<close> lists.\<close>

definition addMatch :: "string list \<Rightarrow> string \<times> (nat \<rightharpoonup> string) \<Rightarrow> string list" where
  "addMatch nodeIds m =
     (let nodeId = group (snd m) 1
      in if nodeId \<notin> set structuralKeywords then setAdd nodeIds nodeId else nodeIds)"

definition extractNodeIds_step :: "string list \<Rightarrow> string \<Rightarrow> string list" where
  "extractNodeIds_step nodeIds aLine =
     (let trimmed = trim aLine in
      if directiveLine trimmed then nodeIds
      else if declarationLine trimmed then nodeIds
      else foldl addMatch nodeIds (matchAll nodePattern trimmed))"

definition extractNodeIds :: "string \<Rightarrow> string list" where
  "extractNodeIds text = foldl extractNodeIds_step [] (split_newline text)"

definition isReservedWord :: "string \<Rightarrow> bool" where
  "isReservedWord nodeId \<longleftrightarrow> toLowerCase nodeId \<in> set RESERVED_WORDS"

text \<open>\<open>/^[ox]\d+$/i\<close>: with the flag \<open>i\<close> the class \<open>[ox]\<close> also has the capitals.\<close>

definition problematicPattern :: matcher where
  "problematicPattern = bol \<circ> cls (\<lambda>c. c \<in> set ''oxOX'') \<circ> many1 isDigit \<circ> eol"

definition hasProblematicPattern :: "string \<Rightarrow> bool" where
  "hasProblematicPattern nodeId \<longleftrightarrow> exec problematicPattern nodeId \<noteq> None"

definition reservedWordsRule_name :: string where
  "reservedWordsRule_name = ''reserved-words''"

definition reservedWordsRule_defaultSeverity :: Severity where
  "reservedWordsRule_defaultSeverity = Warning"

text \<open>The node identifiers that the rule reports as problematic patterns.\<close>

definition problematicIds :: "string \<Rightarrow> string list" where
  "problematicIds text = filter hasProblematicPattern (extractNodeIds text)"

definition reservedIds :: "string \<Rightarrow> string list" where
  "reservedIds text = filter isReservedWord (extractNodeIds text)"

definition reservedWordsRule_check :: "Diagram \<Rightarrow> Metrics \<Rightarrow> RuleConfig \<Rightarrow> Issue option" where
  "reservedWordsRule_check diagram metrics config =
    (let sev = nullish (cfgSeverity config) reservedWordsRule_defaultSeverity;
         reserved = reservedIds (content diagram);
         problematic = problematicIds (content diagram);
         issues = (if reserved \<noteq> [] then [''Reserved words: '' @ join '', '' reserved] else [])
                  @ (if problematic \<noteq> [] then [''Problematic patterns: '' @ join '', '' problematic] else [])
     in if issues = [] then None
        else
          (let reservedList =
                 (if reserved \<noteq> [] then
                    [CHR 0x0A] @ ''Reserved words:'' @ [CHR 0x0A] @
                    join [CHR 0x0A]
                      (map (\<lambda>w. ''  - '' @ w @ '' (use '' @ w @ ''Node or _'' @ w @ '' instead)'') reserved)
                  else []);
               problematicList =
                 (if problematic \<noteq> [] then
                    [CHR 0x0A] @ ''Problematic patterns:'' @ [CHR 0x0A] @
                    join [CHR 0x0A]
                      (map (\<lambda>w. ''  - '' @ w @ '' (conflicts with Mermaid syntax, use '' @ w @ ''_node instead)'')
                         problematic)
                  else [])
           in Some \<lparr> rule = reservedWordsRule_name,
                     severity = sev,
                     message = [Txt ''Found '', Num (real (length reserved + length problematic)),
                                Txt '' reserved/problematic node ID(s)''],
                     issueFilePath = filePath diagram,
                     line = startLine diagram,
                     suggestion = Some (''Avoid reserved words and conflicting patterns:'' @ [CHR 0x0A] @
                       reservedList @ problematicList @ [CHR 0x0A, CHR 0x0A] @ ''Suggestions:'' @ [CHR 0x0A] @
                       ''- Prefix with underscore: _end, _click'' @ [CHR 0x0A] @
                       ''- Use descriptive names: endNode, clickHandler'' @ [CHR 0x0A] @
                       ''- Avoid o/x followed by digits: use item_o1 instead of o1''),
                     citation = None \<rparr>))"

section \<open>config/viewport-profiles.ts\<close>

record Thresholds =
  info :: number
  warning :: number
  error :: number

record ViewportProfile =
  name :: string
  description :: string
  maxWidth :: number
  maxHeight :: number
  widthThresholds :: Thresholds
  heightThresholds :: Thresholds

definition builtInViewportProfiles :: "(string \<times> ViewportProfile) list" where
  "builtInViewportProfiles =
    [(''default'',
       \<lparr> name = ''default'', description = ''Standard browser viewport'',
         maxWidth = 2500, maxHeight = 2000,
         widthThresholds = \<lparr> info = 1500, warning = 2000, error = 2500 \<rparr>,
         heightThresholds = \<lparr> info = 800, warning = 1200, error = 2000 \<rparr> \<rparr>),
     (''mkdocs'',
       \<lparr> name = ''mkdocs'',
         description = ''MkDocs documentation framework with sidebar (~800-900px content width)'',
         maxWidth = 800, maxHeight = 1500,
         widthThresholds = \<lparr> info = 600, warning = 700, error = 800 \<rparr>,
         heightThresholds = \<lparr> info = 1000, warning = 1200, error = 1500 \<rparr> \<rparr>),
     (''docusaurus'',
       \<lparr> name = ''docusaurus'',
         description = ''Docusaurus documentation framework (~900-1000px content width)'',
         maxWidth = 900, maxHeight = 1500,
         widthThresholds = \<lparr> info = 700, warning = 800, error = 900 \<rparr>,
         heightThresholds = \<lparr> info = 1000, warning = 1200, error = 1500 \<rparr> \<rparr>),
     (''github'',
       \<lparr> name = ''github'',
         description = ''GitHub README and markdown files (~1000px content width)'',
         maxWidth = 1000, maxHeight = 1800,
         widthThresholds = \<lparr> info = 800, warning = 900, error = 1000 \<rparr>,
         heightThresholds = \<lparr> info = 1200, warning = 1500, error = 1800 \<rparr> \<rparr>),
     (''mobile'',
       \<lparr> name = ''mobile'', description = ''Mobile device constraints (400px width)'',
         maxWidth = 400, maxHeight = 800,
         widthThresholds = \<lparr> info = 300, warning = 350, error = 400 \<rparr>,
         heightThresholds = \<lparr> info = 600, warning = 700, error = 800 \<rparr> \<rparr>)]"

section \<open>Notions used in the statements\<close>

text \<open>The code unit before the current position once \<open>xs\<close> has been consumed.\<close>

definition prevAfter :: "char option \<Rightarrow> string \<Rightarrow> char option" where
  "prevAfter p xs = (if xs = [] then p else Some (last xs))"


text \<open>The invariant of the loop of \<open>extractClasses\<close> that keeps \<open>classes.get(currentClass)\<close>
  defined: inside a block the current class is in the map.\<close>

definition blockInv :: "(string \<times> ClassNode) list \<times> string option \<times> bool \<Rightarrow> bool" where
  "blockInv st \<longleftrightarrow>
     (case st of (cs, currentClass, inClassBlock) \<Rightarrow>
        inClassBlock \<longrightarrow> (\<forall>c. currentClass = Some c \<longrightarrow> c \<noteq> [] \<longrightarrow> mapHas cs c))"

text \<open>\<open>k\<close> is a key of the adjacency map \<open>m\<close> and \<open>v\<close> is in its list.\<close>

definition linked :: "(string \<times> string list) list \<Rightarrow> string \<Rightarrow> string \<Rightarrow> bool" where
  "linked m k v \<longleftrightarrow> (\<exists>vs. (k, vs) \<in> set m \<and> v \<in> set vs)"

section \<open>Threshold rules\<close>

text \<open>
  C5. \<open>maxEdgesRule.check\<close> returns an issue exactly when \<open>metrics.edgeCount\<close> is
  strictly greater than the configured threshold (100 when the configuration has none),
  and \<open>null\<close> otherwise. An issue it returns has the rule identifier \<open>max-edges\<close>, the
  configured severity (\<open>error\<close> when the configuration has none), the diagram's file
  path and the diagram's start line. The result is an optional issue, so there is never
  more than one.
\<close>

theorem maxEdges_issue_iff:
  "(maxEdgesRule_check d m cfg \<noteq> None \<longleftrightarrow>
      edgeCount m > (case threshold cfg of Some t \<Rightarrow> t | None \<Rightarrow> 100)) \<and>
   (\<forall>i. maxEdgesRule_check d m cfg = Some i \<longrightarrow>
      rule i = ''max-edges'' \<and>
      severity i = (case cfgSeverity cfg of Some s \<Rightarrow> s | None \<Rightarrow> Error) \<and>
      issueFilePath i = filePath d \<and>
      line i = startLine d)"
  by (auto simp: maxEdgesRule_check_def Let_def nullish_def nullishOpt_def
      maxEdgesRule_defaultThreshold_def maxEdgesRule_defaultSeverity_def
      maxEdgesRule_name_def split: option.splits)

theorem maxEdges_issue_iff_witness:
  "maxEdgesRule_check
      \<lparr> content = ''graph TD'', diagramType = ''flowchart'', filePath = ''docs/a.md'', startLine = 7 \<rparr>
      \<lparr> nodeCount = 30, edgeCount = 101, graphDensity = 1 / 10, maxBranchWidth = 4,
        averageDegree = 6 \<rparr>
      \<lparr> enabled = True, cfgSeverity = None, threshold = None, densityThreshold = None \<rparr>
    = Some \<lparr> rule = ''max-edges'', severity = Error,
             message = [Txt ''Too many connections ('', Num 101, Txt '' > '', Num 100, Txt '')''],
             issueFilePath = ''docs/a.md'', line = 7,
             suggestion = Some (''Split into multiple diagrams or use subgraphs to reduce complexity. '' @
               ''Consider breaking down into logical components with separate diagrams.''),
             citation = Some ''Mermaid Official Docs: https://docs.mermaidchart.com/blog/posts/flow-charts-are-on2-complex-so-dont-go-over-100-connections'' \<rparr>
   \<and> rule (the (maxEdgesRule_check
      \<lparr> content = ''graph TD'', diagramType = ''flowchart'', filePath = ''docs/a.md'', startLine = 7 \<rparr>
      \<lparr> nodeCount = 30, edgeCount = 101, graphDensity = 1 / 10, maxBranchWidth = 4,
        averageDegree = 6 \<rparr>
      \<lparr> enabled = True, cfgSeverity = None, threshold = None, densityThreshold = None \<rparr>)) = ''max-edges''"
  using maxEdges_issue_iff
    [of "\<lparr> content = ''graph TD'', diagramType = ''flowchart'', filePath = ''docs/a.md'', startLine = 7 \<rparr>"
        "\<lparr> nodeCount = 30, edgeCount = 101, graphDensity = 1 / 10, maxBranchWidth = 4,
           averageDegree = 6 \<rparr>"
        "\<lparr> enabled = True, cfgSeverity = None, threshold = None, densityThreshold = None \<rparr>"]
  by (simp add: maxEdgesRule_check_def Let_def nullish_def nullishOpt_def
      maxEdgesRule_defaultThreshold_def maxEdgesRule_defaultSeverity_def maxEdgesRule_name_def)

text \<open>
  C2. Each threshold rule (max-edges, max-nodes-high-density, max-nodes-low-density,
  cyclomatic-complexity) is monotone in its configured threshold, everything else being
  fixed: with \<open>t \<le> t'\<close>, a check that returns no issue at \<open>t\<close> returns none at \<open>t'\<close>, and
  a check that returns an issue at \<open>t'\<close> returns one at \<open>t\<close>.
\<close>

theorem threshold_rules_monotone:
  assumes "t \<le> t'"
  shows "(maxEdgesRule_check d m (cfg\<lparr>threshold := Some t\<rparr>) = None
            \<longrightarrow> maxEdgesRule_check d m (cfg\<lparr>threshold := Some t'\<rparr>) = None) \<and>
         (maxEdgesRule_check d m (cfg\<lparr>threshold := Some t'\<rparr>) \<noteq> None
            \<longrightarrow> maxEdgesRule_check d m (cfg\<lparr>threshold := Some t\<rparr>) \<noteq> None) \<and>
         (maxNodesHighDensityRule_check d m (cfg\<lparr>threshold := Some t\<rparr>) = None
            \<longrightarrow> maxNodesHighDensityRule_check d m (cfg\<lparr>threshold := Some t'\<rparr>) = None) \<and>
         (maxNodesHighDensityRule_check d m (cfg\<lparr>threshold := Some t'\<rparr>) \<noteq> None
            \<longrightarrow> maxNodesHighDensityRule_check d m (cfg\<lparr>threshold := Some t\<rparr>) \<noteq> None) \<and>
         (maxNodesLowDensityRule_check d m (cfg\<lparr>threshold := Some t\<rparr>) = None
            \<longrightarrow> maxNodesLowDensityRule_check d m (cfg\<lparr>threshold := Some t'\<rparr>) = None) \<and>
         (maxNodesLowDensityRule_check d m (cfg\<lparr>threshold := Some t'\<rparr>) \<noteq> None
            \<longrightarrow> maxNodesLowDensityRule_check d m (cfg\<lparr>threshold := Some t\<rparr>) \<noteq> None) \<and>
         (cyclomaticComplexityRule_check d m (cfg\<lparr>threshold := Some t\<rparr>) = None
            \<longrightarrow> cyclomaticComplexityRule_check d m (cfg\<lparr>threshold := Some t'\<rparr>) = None) \<and>
         (cyclomaticComplexityRule_check d m (cfg\<lparr>threshold := Some t'\<rparr>) \<noteq> None
            \<longrightarrow> cyclomaticComplexityRule_check d m (cfg\<lparr>threshold := Some t\<rparr>) \<noteq> None)"
proof -
  have e: "maxEdgesRule_check d m (cfg\<lparr>threshold := Some u\<rparr>) = None \<longleftrightarrow> \<not> edgeCount m > u" for u
    by (simp add: maxEdgesRule_check_def Let_def nullish_def nullishOpt_def)
  have h: "maxNodesHighDensityRule_check d m (cfg\<lparr>threshold := Some u\<rparr>) = None \<longleftrightarrow>
             \<not> (nodeCount m > u \<and> graphDensity m > nullish (densityThreshold cfg) (3 / 10))" for u
    by (simp add: maxNodesHighDensityRule_check_def Let_def nullish_def nullishOpt_def)
  have l: "maxNodesLowDensityRule_check d m (cfg\<lparr>threshold := Some u\<rparr>) = None \<longleftrightarrow>
             \<not> (nodeCount m > u \<and> graphDensity m \<le> 3 / 10)" for u
    by (simp add: maxNodesLowDensityRule_check_def Let_def nullish_def nullishOpt_def)
  have c: "cyclomaticComplexityRule_check d m (cfg\<lparr>threshold := Some u\<rparr>) = None \<longleftrightarrow>
             \<not> real (calculateCyclomaticComplexity (countDecisionNodes (content d))) > u" for u
    by (simp add: cyclomaticComplexityRule_check_def Let_def nullish_def nullishOpt_def)
  from assms show ?thesis
    unfolding e h l c by auto
qed

theorem threshold_rules_monotone_witness:
  "(50 :: real) \<le> 100 \<and>
   maxEdgesRule_check
      \<lparr> content = ''graph TD'', diagramType = ''flowchart'', filePath = ''docs/a.md'', startLine = 7 \<rparr>
      \<lparr> nodeCount = 40, edgeCount = 120, graphDensity = 1 / 10, maxBranchWidth = 4,
        averageDegree = 6 \<rparr>
      \<lparr> enabled = True, cfgSeverity = None, threshold = Some 50, densityThreshold = None \<rparr> \<noteq> None \<and>
   maxNodesLowDensityRule_check
      \<lparr> content = ''graph TD'', diagramType = ''flowchart'', filePath = ''docs/a.md'', startLine = 7 \<rparr>
      \<lparr> nodeCount = 40, edgeCount = 120, graphDensity = 1 / 10, maxBranchWidth = 4,
        averageDegree = 6 \<rparr>
      \<lparr> enabled = True, cfgSeverity = None, threshold = Some 100, densityThreshold = None \<rparr> = None"
  using threshold_rules_monotone
    [of 50 100
        "\<lparr> content = ''graph TD'', diagramType = ''flowchart'', filePath = ''docs/a.md'', startLine = 7 \<rparr>"
        "\<lparr> nodeCount = 40, edgeCount = 120, graphDensity = 1 / 10, maxBranchWidth = 4,
           averageDegree = 6 \<rparr>"
        "\<lparr> enabled = True, cfgSeverity = None, threshold = None, densityThreshold = None \<rparr>"]
  by (simp add: maxEdgesRule_check_def maxNodesLowDensityRule_check_def Let_def nullish_def
      nullishOpt_def)

text \<open>
  C4. Under the default configuration (no density threshold of its own, or 0.3) the two
  node-count rules are gated on the graph density: max-nodes-high-density returns an
  issue exactly when \<open>nodeCount\<close> exceeds its threshold (50 by default) and the density is
  above 0.3; max-nodes-low-density returns an issue exactly when \<open>nodeCount\<close> exceeds its
  threshold (100 by default) and the density is at most 0.3; so the two never both
  return an issue for the same diagram and metrics.
\<close>

theorem node_rules_density_gate:
  assumes "densityThreshold cfgH = None \<or> densityThreshold cfgH = Some (3 / 10)"
  shows "(maxNodesHighDensityRule_check d m cfgH \<noteq> None \<longleftrightarrow>
            nodeCount m > (case threshold cfgH of Some t \<Rightarrow> t | None \<Rightarrow> 50) \<and>
            graphDensity m > 3 / 10) \<and>
         (maxNodesLowDensityRule_check d m cfgL \<noteq> None \<longleftrightarrow>
            nodeCount m > (case threshold cfgL of Some t \<Rightarrow> t | None \<Rightarrow> 100) \<and>
            graphDensity m \<le> 3 / 10) \<and>
         \<not> (maxNodesHighDensityRule_check d m cfgH \<noteq> None \<and>
            maxNodesLowDensityRule_check d m cfgL \<noteq> None)"
proof -
  have h: "maxNodesHighDensityRule_check d m cfgH \<noteq> None \<longleftrightarrow>
            nodeCount m > (case threshold cfgH of Some t \<Rightarrow> t | None \<Rightarrow> 50) \<and>
            graphDensity m > 3 / 10"
    using assms
    by (auto simp: maxNodesHighDensityRule_check_def Let_def nullish_def nullishOpt_def
        maxNodesHighDensityRule_defaultThreshold_def split: option.splits)
  have l: "maxNodesLowDensityRule_check d m cfgL \<noteq> None \<longleftrightarrow>
            nodeCount m > (case threshold cfgL of Some t \<Rightarrow> t | None \<Rightarrow> 100) \<and>
            graphDensity m \<le> 3 / 10"
    by (auto simp: maxNodesLowDensityRule_check_def Let_def nullish_def nullishOpt_def
        maxNodesLowDensityRule_defaultThreshold_def split: option.splits)
  show ?thesis
    unfolding h l by auto
qed

theorem node_rules_density_gate_witness:
  "densityThreshold \<lparr> enabled = True, cfgSeverity = None, threshold = None, densityThreshold = None \<rparr> = None \<and>
   maxNodesHighDensityRule_check
      \<lparr> content = ''graph TD'', diagramType = ''flowchart'', filePath = ''docs/a.md'', startLine = 7 \<rparr>
      \<lparr> nodeCount = 60, edgeCount = 1416, graphDensity = 4 / 10, maxBranchWidth = 30,
        averageDegree = 47 \<rparr>
      \<lparr> enabled = True, cfgSeverity = None, threshold = None, densityThreshold = None \<rparr> \<noteq> None \<and>
   maxNodesLowDensityRule_check
      \<lparr> content = ''graph TD'', diagramType = ''flowchart'', filePath = ''docs/a.md'', startLine = 7 \<rparr>
      \<lparr> nodeCount = 60, edgeCount = 1416, graphDensity = 4 / 10, maxBranchWidth = 30,
        averageDegree = 47 \<rparr>
      \<lparr> enabled = True, cfgSeverity = None, threshold = None, densityThreshold = None \<rparr> = None"
  using node_rules_density_gate
    [of "\<lparr> enabled = True, cfgSeverity = None, threshold = None, densityThreshold = None \<rparr>"
        "\<lparr> content = ''graph TD'', diagramType = ''flowchart'', filePath = ''docs/a.md'', startLine = 7 \<rparr>"
        "\<lparr> nodeCount = 60, edgeCount = 1416, graphDensity = 4 / 10, maxBranchWidth = 30,
           averageDegree = 47 \<rparr>"
        "\<lparr> enabled = True, cfgSeverity = None, threshold = None, densityThreshold = None \<rparr>"]
  by simp

section \<open>Viewport profiles\<close>

text \<open>
  C9. The built-in viewport profiles are \<open>default\<close>, \<open>mkdocs\<close>, \<open>docusaurus\<close>, \<open>github\<close>
  and \<open>mobile\<close>, and in each of them the pixel thresholds are strictly increasing from
  the info tier to the warning tier to the error tier, for the width and for the height.
\<close>

theorem builtInViewportProfiles_tiered:
  "map fst builtInViewportProfiles = [''default'', ''mkdocs'', ''docusaurus'', ''github'', ''mobile''] \<and>
   (\<forall>p \<in> set (map snd builtInViewportProfiles).
      info (widthThresholds p) < warning (widthThresholds p) \<and>
      warning (widthThresholds p) < error (widthThresholds p) \<and>
      info (heightThresholds p) < warning (heightThresholds p) \<and>
      warning (heightThresholds p) < error (heightThresholds p))"
  by (simp add: builtInViewportProfiles_def)

theorem builtInViewportProfiles_tiered_witness:
  "map_of builtInViewportProfiles ''mobile'' =
     Some \<lparr> name = ''mobile'', description = ''Mobile device constraints (400px width)'',
            maxWidth = 400, maxHeight = 800,
            widthThresholds = \<lparr> info = 300, warning = 350, error = 400 \<rparr>,
            heightThresholds = \<lparr> info = 600, warning = 700, error = 800 \<rparr> \<rparr> \<and>
   info (widthThresholds (snd (builtInViewportProfiles ! 4))) < warning (widthThresholds (snd (builtInViewportProfiles ! 4))) \<and>
   warning (heightThresholds (snd (builtInViewportProfiles ! 4))) < error (heightThresholds (snd (builtInViewportProfiles ! 4)))"
  using builtInViewportProfiles_tiered
  by (simp add: builtInViewportProfiles_def)

section \<open>How the matchers run\<close>

lemma prevAfter_simps [simp]:
  "prevAfter p [] = p"
  "prevAfter p (x # xs) = prevAfter (Some x) xs"
  "prevAfter p (xs @ [x]) = Some x"
  by (simp_all add: prevAfter_def)

lemma prevAfter_append: "prevAfter p (xs @ ys) = prevAfter (prevAfter p xs) ys"
  by (induction xs arbitrary: p) simp_all























section \<open>Class diagrams\<close>








lemma mapHas_ensureClass: "mapHas (ensureClass cs n) k \<longleftrightarrow> k = n \<or> mapHas cs k"
  by (auto simp: ensureClass_def mapHas_def)

lemma pushMember_keys: "pushMember cs n member = Some cs' \<Longrightarrow> mapHas cs' k = mapHas cs k"
  by (force simp: pushMember_def mapHas_def split: if_splits)

lemma pushMember_Some: "mapHas cs n \<Longrightarrow> \<exists>cs'. pushMember cs n member = Some cs'"
  by (simp add: pushMember_def)

lemma extractClasses_step_cases:
  assumes "Q (Some (cs, cur, blk))"
    and "\<And>n. Q (Some (ensureClass cs n, Some n, True))"
    and "\<And>n. Q (Some (ensureClass cs n, cur, blk))"
    and "\<And>n member. Q (map_option (\<lambda>cs'. (cs', cur, blk)) (pushMember (ensureClass cs n) n member))"
    and "Q (Some (cs, None, False))"
    and "\<And>c member. blk \<Longrightarrow> cur = Some c \<Longrightarrow> c \<noteq> [] \<Longrightarrow>
           Q (map_option (\<lambda>cs'. (cs', cur, blk)) (pushMember cs c member))"
  shows "Q (extractClasses_step (cs, cur, blk) l)"
proof (cases "startsWith (trim l) ''%%''")
  case True
  with assms(1) show ?thesis by simp
next
  case comment: False
  show ?thesis
  proof (cases "exec classPattern (trim l)")
    case (Some classMatch)
    with comment assms(2,3) show ?thesis by (simp add: Let_def)
  next
    case noClass: None
    show ?thesis
    proof (cases "exec memberPattern (trim l)")
      case (Some memberMatch)
      with comment noClass assms(4) show ?thesis by (simp add: Let_def)
    next
      case noMember: None
      show ?thesis
      proof (cases "blk \<and> cur \<noteq> None \<and> cur \<noteq> Some []")
        case False
        then have "(blk \<and> cur \<noteq> None \<and> cur \<noteq> Some []) = False" by simp
        with comment noClass noMember assms(1) show ?thesis
          by (simp only: extractClasses_step.simps Let_def if_False option.simps)
      next
        case inBlock: True
        then obtain c where c: "blk" "cur = Some c" "c \<noteq> []" by auto
        show ?thesis
        proof (cases "trim l = ''}''")
          case True
          with comment noClass noMember c assms(5) show ?thesis by (simp add: Let_def)
        next
          case noClose: False
          show ?thesis
          proof (cases "exec blockMemberPattern (trim l)")
            case None
            with comment noClass noMember c noClose assms(1) show ?thesis
              by (simp add: Let_def)
          next
            case (Some blockMemberMatch)
            show ?thesis
            proof (cases "trim l = []")
              case True
              with comment noClass noMember c noClose Some assms(1) show ?thesis
                by (simp add: Let_def)
            next
              case False
              with comment noClass noMember c noClose Some
                assms(6) [OF c, of "trim (group blockMemberMatch 2)"]
              show ?thesis by (simp add: Let_def)
            qed
          qed
        qed
      qed
    qed
  qed
qed


lemma extractClasses_step_blockInv:
  assumes inv: "blockInv (cs, cur, blk)"
  shows "\<exists>st'. extractClasses_step (cs, cur, blk) l = Some st' \<and> blockInv st'"
proof (rule extractClasses_step_cases)
  show "\<exists>st'. Some (cs, cur, blk) = Some st' \<and> blockInv st'"
    using inv by simp
next
  fix n
  show "\<exists>st'. Some (ensureClass cs n, Some n, True) = Some st' \<and> blockInv st'"
    by (simp add: blockInv_def mapHas_ensureClass)
next
  fix n
  show "\<exists>st'. Some (ensureClass cs n, cur, blk) = Some st' \<and> blockInv st'"
    using inv by (simp add: blockInv_def mapHas_ensureClass)
next
  fix n member
  have "mapHas (ensureClass cs n) n" by (simp add: mapHas_ensureClass)
  from pushMember_Some [OF this] obtain cs' where
    p: "pushMember (ensureClass cs n) n member = Some cs'" by blast
  from inv have "blockInv (cs', cur, blk)"
    by (simp add: blockInv_def pushMember_keys [OF p] mapHas_ensureClass)
  with p show "\<exists>st'. map_option (\<lambda>cs'. (cs', cur, blk)) (pushMember (ensureClass cs n) n member) = Some st'
                \<and> blockInv st'"
    by simp
next
  show "\<exists>st'. Some (cs, None, False) = Some st' \<and> blockInv st'"
    by (simp add: blockInv_def)
next
  fix c member
  assume c: "blk" "cur = Some c" "c \<noteq> []"
  with inv have "mapHas cs c" by (simp add: blockInv_def)
  from pushMember_Some [OF this] obtain cs' where
    p: "pushMember cs c member = Some cs'" by blast
  from inv have "blockInv (cs', cur, blk)"
    by (simp add: blockInv_def pushMember_keys [OF p])
  with p show "\<exists>st'. map_option (\<lambda>cs'. (cs', cur, blk)) (pushMember cs c member) = Some st'
                \<and> blockInv st'"
    by simp
qed


lemma extractClasses_loop_total:
  "blockInv st \<Longrightarrow> \<exists>st'. extractClasses_loop st ls = Some st'"
proof (induction ls arbitrary: st)
  case Nil
  show ?case by (rule exI [of _ st]) simp
next
  case (Cons l ls)
  obtain cs cur blk where st: "st = (cs, cur, blk)" using prod_cases3 by blast
  from extractClasses_step_blockInv [of cs cur blk l] Cons.prems obtain st1 where
    "extractClasses_step st l = Some st1" "blockInv st1"
    unfolding st by blast
  with Cons.IH [of st1] show ?case by simp
qed

lemma extractClasses_total: "\<exists>cs. extractClasses text = Some cs"
  using extractClasses_loop_total [of "([], None, False)" "split_newline text"]
  by (auto simp: extractClasses_def blockInv_def)

lemma pushTo_entry:
  assumes "(k', vs) \<in> set (if mapHas m k then m else m @ [(k, [])])"
  shows "(k', if k' = k then vs @ [v] else vs) \<in> set (pushTo m k v)"
proof -
  let ?f = "\<lambda>(k', vs). if k' = k then (k', vs @ [v]) else (k', vs)"
  from assms have "?f (k', vs) \<in> ?f ` set (if mapHas m k then m else m @ [(k, [])])"
    by (rule imageI)
  then show ?thesis
    by (simp add: pushTo_def Let_def split: if_splits)
qed

lemma linked_pushTo_new: "linked (pushTo m k v) k v"
proof -
  have "\<exists>vs. (k, vs) \<in> set (if mapHas m k then m else m @ [(k, [])])"
  proof (cases "mapHas m k")
    case True
    then obtain vs where "(k, vs) \<in> set m" by (auto simp: mapHas_def)
    with True show ?thesis by auto
  next
    case False
    then have "(k, []) \<in> set (if mapHas m k then m else m @ [(k, [])])" by simp
    then show ?thesis ..
  qed
  then obtain vs where "(k, vs) \<in> set (if mapHas m k then m else m @ [(k, [])])" ..
  from pushTo_entry [OF this, of v] have "(k, vs @ [v]) \<in> set (pushTo m k v)" by simp
  then show ?thesis unfolding linked_def by (intro exI [of _ "vs @ [v]"]) simp
qed

lemma linked_pushTo_old:
  assumes "linked m k' v'"
  shows "linked (pushTo m k v) k' v'"
proof -
  from assms obtain vs where vs: "(k', vs) \<in> set m" "v' \<in> set vs"
    unfolding linked_def by blast
  from vs(1) have "(k', vs) \<in> set (if mapHas m k then m else m @ [(k, [])])" by simp
  from pushTo_entry [OF this, of v]
  have "(k', if k' = k then vs @ [v] else vs) \<in> set (pushTo m k v)" .
  moreover from vs(2) have "v' \<in> set (if k' = k then vs @ [v] else vs)" by simp
  ultimately show ?thesis unfolding linked_def by blast
qed

lemma buildGraph_step_sel:
  "fst (buildGraph_step acc e) = pushTo (fst acc) (edgeFrom e) (edgeTo e)"
  "snd (buildGraph_step acc e) = pushTo (snd acc) (edgeTo e) (edgeFrom e)"
  by (simp_all add: buildGraph_step_def)

lemma foldl_buildGraph_step_old:
  "linked (fst acc) a b \<Longrightarrow> linked (fst (foldl buildGraph_step acc es)) a b"
  "linked (snd acc) a b \<Longrightarrow> linked (snd (foldl buildGraph_step acc es)) a b"
  by (induction es arbitrary: acc) (simp_all add: buildGraph_step_sel linked_pushTo_old)

lemma foldl_buildGraph_step_linked:
  "e \<in> set es \<Longrightarrow>
     linked (fst (foldl buildGraph_step acc es)) (edgeFrom e) (edgeTo e) \<and>
     linked (snd (foldl buildGraph_step acc es)) (edgeTo e) (edgeFrom e)"
proof (induction es arbitrary: acc)
  case Nil
  then show ?case by simp
next
  case (Cons x es)
  show ?case
  proof (cases "e = x")
    case True
    then show ?thesis
      by (simp add: foldl_buildGraph_step_old buildGraph_step_sel linked_pushTo_new)
  next
    case False
    with Cons show ?thesis by simp
  qed
qed

lemma keys_pushTo: "fst ` set (pushTo m k v) = insert k (fst ` set m)"
proof -
  let ?f = "\<lambda>(k', vs). if k' = k then (k', vs @ [v]) else (k', vs)"
  have f: "fst (?f x) = fst x" for x by (cases x) simp
  have "map fst (pushTo m k v) = map fst (if mapHas m k then m else m @ [(k, [])])"
    unfolding pushTo_def Let_def map_map comp_def f ..
  then have "set (map fst (pushTo m k v)) = set (map fst (if mapHas m k then m else m @ [(k, [])]))"
    by (rule arg_cong)
  then show ?thesis by (auto simp: mapHas_def)
qed

lemma keys_foldl_buildGraph_step:
  "fst ` set (fst (foldl buildGraph_step acc es)) = fst ` set (fst acc) \<union> edgeFrom ` set es"
  "fst ` set (snd (foldl buildGraph_step acc es)) = fst ` set (snd acc) \<union> edgeTo ` set es"
  by (induction es arbitrary: acc) (simp_all add: buildGraph_step_sel keys_pushTo)


text \<open>
  C1, as the code has it. For every class-diagram source text \<open>parseClassDiagram\<close> returns
  a graph whose node list is the list of the declared classes (the keys of \<open>classes\<close>) and
  whose edges are the relationships, in order. The keys of the forward adjacency map are
  exactly the sources of the edges and the keys of the reverse adjacency map are exactly
  the targets of the edges; every edge has its target in the forward list of its source
  and its source in the reverse list of its target.
\<close>

theorem parseClassDiagram_graph:
  "\<exists>p. parseClassDiagram text = Some p \<and>
     nodes (graph p) = map fst (classes p) \<and>
     map (\<lambda>e. (edgeFrom e, edgeTo e)) (edges (graph p))
       = map (\<lambda>r. (relFrom r, relTo r)) (relationships p) \<and>
     set (map fst (adjacencyList (graph p))) = edgeFrom ` set (edges (graph p)) \<and>
     set (map fst (reverseAdjacencyList (graph p))) = edgeTo ` set (edges (graph p)) \<and>
     (\<forall>e \<in> set (edges (graph p)).
        linked (adjacencyList (graph p)) (edgeFrom e) (edgeTo e) \<and>
        linked (reverseAdjacencyList (graph p)) (edgeTo e) (edgeFrom e))"
proof -
  from extractClasses_total obtain cs where cs: "extractClasses text = Some cs" by blast
  define rels where "rels = extractRelationships text"
  define es where "es = map (\<lambda>rel. \<lparr> edgeFrom = relFrom rel, edgeTo = relTo rel,
                             edgeLabel = relLabel rel \<rparr>) rels"
  define maps where "maps = foldl buildGraph_step ([], []) es"
  define gr where "gr = \<lparr> nodes = map fst cs, edges = es, adjacencyList = fst maps,
           reverseAdjacencyList = snd maps \<rparr>"
  have p: "parseClassDiagram text = Some \<lparr> classes = cs, relationships = rels, graph = gr \<rparr>"
    by (simp add: parseClassDiagram_def buildGraphFromRelationships_def Let_def cs rels_def
        es_def maps_def gr_def)
  have 1: "map (\<lambda>e. (edgeFrom e, edgeTo e)) es = map (\<lambda>r. (relFrom r, relTo r)) rels"
    by (simp add: es_def comp_def)
  have 2: "fst ` set (fst maps) = edgeFrom ` set es" "fst ` set (snd maps) = edgeTo ` set es"
    by (simp_all add: maps_def keys_foldl_buildGraph_step)
  have 3: "\<forall>e \<in> set es. linked (fst maps) (edgeFrom e) (edgeTo e) \<and>
        linked (snd maps) (edgeTo e) (edgeFrom e)"
    unfolding maps_def using foldl_buildGraph_step_linked by blast
  show ?thesis
    by (rule exI [of _ "\<lparr> classes = cs, relationships = rels, graph = gr \<rparr>"])
      (simp add: p gr_def 1 2 3)
qed

theorem parseClassDiagram_graph_witness:
  "parseClassDiagram (''class Animal'' @ [CHR 0x0A] @ ''Animal <|-- Dog'' @ [CHR 0x0A] @ ''Dog --> Owner'') =
     Some \<lparr> classes = [(''Animal'', \<lparr> nodeName = ''Animal'', attributes = [], methods = [] \<rparr>)],
            relationships =
              [\<lparr> relFrom = ''Dog'', relTo = ''Animal'', relType = Inheritance,
                  relLabel = None, multiplicity = None \<rparr>,
               \<lparr> relFrom = ''Dog'', relTo = ''Owner'', relType = Association,
                  relLabel = None, multiplicity = Some (None, None) \<rparr>],
            graph = \<lparr> nodes = [''Animal''],
                      edges = [\<lparr> edgeFrom = ''Dog'', edgeTo = ''Animal'', edgeLabel = None \<rparr>,
                               \<lparr> edgeFrom = ''Dog'', edgeTo = ''Owner'', edgeLabel = None \<rparr>],
                      adjacencyList = [(''Dog'', [''Animal'', ''Owner''])],
                      reverseAdjacencyList = [(''Animal'', [''Dog'']), (''Owner'', [''Dog''])] \<rparr> \<rparr>
   \<and> linked [(''Dog'', [''Animal'', ''Owner''])] ''Dog'' ''Owner''
   \<and> linked [(''Animal'', [''Dog'']), (''Owner'', [''Dog''])] ''Owner'' ''Dog''"
proof -
  let ?text = "''class Animal'' @ [CHR 0x0A] @ ''Animal <|-- Dog'' @ [CHR 0x0A] @ ''Dog --> Owner''"
  have e: "parseClassDiagram ?text =
     Some \<lparr> classes = [(''Animal'', \<lparr> nodeName = ''Animal'', attributes = [], methods = [] \<rparr>)],
            relationships =
              [\<lparr> relFrom = ''Dog'', relTo = ''Animal'', relType = Inheritance,
                  relLabel = None, multiplicity = None \<rparr>,
               \<lparr> relFrom = ''Dog'', relTo = ''Owner'', relType = Association,
                  relLabel = None, multiplicity = Some (None, None) \<rparr>],
            graph = \<lparr> nodes = [''Animal''],
                      edges = [\<lparr> edgeFrom = ''Dog'', edgeTo = ''Animal'', edgeLabel = None \<rparr>,
                               \<lparr> edgeFrom = ''Dog'', edgeTo = ''Owner'', edgeLabel = None \<rparr>],
                      adjacencyList = [(''Dog'', [''Animal'', ''Owner''])],
                      reverseAdjacencyList = [(''Animal'', [''Dog'']), (''Owner'', [''Dog''])] \<rparr> \<rparr>"
    by code_simp
  from parseClassDiagram_graph [of ?text] e show ?thesis
    by simp
qed

text \<open>
  C1, as the specification states it, fails on the text \<open>A <|-- B\<close>, which declares no
  class: the graph has no node although its edge has the endpoints \<open>B\<close> and \<open>A\<close>, and
  \<open>A\<close> is no key of the forward adjacency map and \<open>B\<close> no key of the reverse one.
\<close>

theorem parseClassDiagram_not_canonical:
  "parseClassDiagram ''A <|-- B'' =
     Some \<lparr> classes = [],
            relationships = [\<lparr> relFrom = ''B'', relTo = ''A'', relType = Inheritance,
                               relLabel = None, multiplicity = None \<rparr>],
            graph = \<lparr> nodes = [],
                      edges = [\<lparr> edgeFrom = ''B'', edgeTo = ''A'', edgeLabel = None \<rparr>],
                      adjacencyList = [(''B'', [''A''])],
                      reverseAdjacencyList = [(''A'', [''B''])] \<rparr> \<rparr>
   \<and> \<not> canonicalGraph
         \<lparr> nodes = [],
           edges = [\<lparr> edgeFrom = ''B'', edgeTo = ''A'', edgeLabel = None \<rparr>],
           adjacencyList = [(''B'', [''A''])],
           reverseAdjacencyList = [(''A'', [''B''])] \<rparr>
   \<and> \<not> mapHas [(''B'', [''A''])] ''A''
   \<and> \<not> mapHas [(''A'', [''B''])] ''B''"
proof -
  have "parseClassDiagram ''A <|-- B'' =
     Some \<lparr> classes = [],
            relationships = [\<lparr> relFrom = ''B'', relTo = ''A'', relType = Inheritance,
                               relLabel = None, multiplicity = None \<rparr>],
            graph = \<lparr> nodes = [],
                      edges = [\<lparr> edgeFrom = ''B'', edgeTo = ''A'', edgeLabel = None \<rparr>],
                      adjacencyList = [(''B'', [''A''])],
                      reverseAdjacencyList = [(''A'', [''B''])] \<rparr> \<rparr>"
    by code_simp
  then show ?thesis
    by (simp add: canonicalGraph_def mapHas_def)
qed





end
